theory Spec2Isabelle
  imports Main "HOL-Library.AList"
begin

section \<open>Values shared by the components\<close>

text \<open>
  The language server keeps an in-memory copy of a remote workspace
  (\<open>FileSystemUpdater\<close>), groups its files into projects (\<open>ProjectManager\<close>) and
  prepares one compiler configuration per project (\<open>ProjectConfiguration\<close>).
  JavaScript objects are records, \<open>Map\<close>s are partial maps (association lists where
  the iteration order is used), a thrown \<open>Error\<close> is the left summand of a result and
  a promise is the outcome it is settled with.
\<close>

datatype error =
    CannotParse string string
  | ConfigNotFound string
  | ProjectUninitialized
  | NotFound string
  | NotFetched string
  | RemoteError string

datatype json =
    JNull
  | JBool bool
  | JNum int
  | JStr string
  | JArr "json list"
  | JObj "(string \<times> json) list"

text \<open>JavaScript truthiness, as tested by \<open>!this.configContent\<close>.\<close>

fun truthy :: "json \<Rightarrow> bool" where
  "truthy JNull = False"
| "truthy (JBool b) = b"
| "truthy (JNum n) = (n \<noteq> 0)"
| "truthy (JStr s) = (s \<noteq> [])"
| "truthy (JArr xs) = True"
| "truthy (JObj kvs) = True"

type_synonym compilerOptions = "(string \<times> json) list"

text \<open>The outcome of a settled \<open>Promise<void>\<close>.\<close>

type_synonym outcome = "error + unit"


section \<open>Paths\<close>

text \<open>
  \<open>path.posix.dirname\<close> of Node.js, the library function the project manager climbs
  directories with. The loop runs the index from the last character down to 1 and
  remembers whether only slashes were seen so far.
\<close>

fun dirname_loop :: "string \<Rightarrow> nat \<Rightarrow> bool \<Rightarrow> nat option" where
  "dirname_loop p 0 matchedSlash = None"
| "dirname_loop p (Suc i) matchedSlash =
     (if p ! Suc i = CHR ''/''
      then (if \<not> matchedSlash then Some (Suc i) else dirname_loop p i matchedSlash)
      else dirname_loop p i False)"

definition posix_dirname :: "string \<Rightarrow> string" where
  "posix_dirname p =
     (if p = [] then ''.''
      else (case dirname_loop p (length p - 1) True of
              None \<Rightarrow> (if hd p = CHR ''/'' then ''/'' else ''.'')
            | Some e \<Rightarrow> (if hd p = CHR ''/'' \<and> e = 1 then ''//'' else take e p)))"

text \<open>
  The step every caller of \<open>dirname\<close> in the project manager takes:
  \<open>dir = path_.posix.dirname(dir); if (dir === '.') dir = ''\<close>.
\<close>

definition parentDir :: "string \<Rightarrow> string" where
  "parentDir p = (let d = posix_dirname p in if d = ''.'' then [] else d)"

definition endsWith :: "string \<Rightarrow> string \<Rightarrow> bool" where
  "endsWith s x \<longleftrightarrow> length x \<le> length s \<and> drop (length s - length x) s = x"

definition startsWith :: "string \<Rightarrow> string \<Rightarrow> bool" where
  "startsWith s x \<longleftrightarrow> take (length x) s = x"

text \<open>The regular expression \<open>/(^|\/)NAME$/\<close> for a literal file name.\<close>

definition isFileNamed :: "string \<Rightarrow> string \<Rightarrow> bool" where
  "isFileNamed name p \<longleftrightarrow> p = name \<or> endsWith p (CHR ''/'' # name)"

text \<open>\<open>/(^|\/)[tj]sconfig\.json$/\<close>\<close>

definition isProjectMarker :: "string \<Rightarrow> bool" where
  "isProjectMarker p \<longleftrightarrow> isFileNamed ''tsconfig.json'' p \<or> isFileNamed ''jsconfig.json'' p"

text \<open>
  \<open>/(^|\/)node_modules\//\<close>: the first argument tells whether the position is the
  start of the string or follows a slash.
\<close>

fun nodeModulesFrom :: "bool \<Rightarrow> string \<Rightarrow> bool" where
  "nodeModulesFrom b [] = False"
| "nodeModulesFrom b (c # cs) =
     ((b \<and> startsWith (c # cs) ''node_modules/'') \<or> nodeModulesFrom (c = CHR ''/'') cs)"

definition inNodeModules :: "string \<Rightarrow> bool" where
  "inNodeModules p = nodeModulesFrom True p"


section \<open>The in-memory file system\<close>

text \<open>
  The class \<open>InMemoryFileSystem\<close> (module \<open>memfs\<close>) is used by every component; the
  module itself is not among the sources. Its record and operations follow the
  specification of the virtual file system: a path has real content, a placeholder, or
  no entry. The field \<open>path\<close> is the root path that \<open>ProjectConfiguration.init\<close> reads
  as \<open>this.fs.path\<close>. Entries are kept in insertion order, as a JavaScript \<open>Map\<close>
  keeps them.
\<close>

datatype content = Fetched string | Placeholder

record InMemoryFileSystem =
  path :: string
  files :: "(string \<times> content) list"
  edited :: "string set"

text \<open>
  Modelled from the spec: \<open>InMemoryFileSystem.add\<close> is missing from the sources.
  \<open>add(path, content?)\<close> inserts a record; with the content omitted it inserts a
  placeholder. A local edit marks its path as edited so that a fetch which was in flight
  does not clobber it: the text of a path that is marked edited is kept.
\<close>

definition add :: "string \<Rightarrow> string option \<Rightarrow> InMemoryFileSystem \<Rightarrow> InMemoryFileSystem" where
  "add uri c mfs =
     (case map_of (files mfs) uri of
        Some (Fetched t) \<Rightarrow>
          (if uri \<in> edited mfs then mfs
           else mfs\<lparr>files := AList.update uri
                                (case c of None \<Rightarrow> Placeholder | Some t' \<Rightarrow> Fetched t') (files mfs)\<rparr>)
      | _ \<Rightarrow> mfs\<lparr>files := AList.update uri
                              (case c of None \<Rightarrow> Placeholder | Some t' \<Rightarrow> Fetched t') (files mfs)\<rparr>)"

text \<open>
  Modelled from the spec: \<open>InMemoryFileSystem.getContent\<close> is missing from the sources.
  \<open>getContent(path)\<close> fails with \<open>NotFetched\<close> if only a placeholder exists and with
  \<open>NotFound\<close> if the path is absent.
\<close>

definition getContent :: "string \<Rightarrow> InMemoryFileSystem \<Rightarrow> error + string" where
  "getContent uri mfs =
     (case map_of (files mfs) uri of
        None \<Rightarrow> Inl (NotFound uri)
      | Some Placeholder \<Rightarrow> Inl (NotFetched uri)
      | Some (Fetched t) \<Rightarrow> Inr t)"

text \<open>
  Modelled from the spec: \<open>InMemoryFileSystem.readFile\<close> is missing from the sources;
  it is the content read of the virtual file system.
\<close>

definition readFile :: "string \<Rightarrow> InMemoryFileSystem \<Rightarrow> error + string" where
  "readFile p mfs = getContent p mfs"

text \<open>
  Modelled from the spec: \<open>InMemoryFileSystem.fileExists\<close> is missing from the sources.
  \<open>exists(path)\<close> is true for a placeholder or real content.
\<close>

definition fileExists :: "string \<Rightarrow> InMemoryFileSystem \<Rightarrow> bool" where
  "fileExists p mfs \<longleftrightarrow> map_of (files mfs) p \<noteq> None"

text \<open>
  Modelled from the spec: \<open>InMemoryFileSystem.uris\<close> is missing from the sources;
  \<open>listPaths()\<close> gives every known path.
\<close>

definition uris :: "InMemoryFileSystem \<Rightarrow> string list" where
  "uris mfs = map fst (files mfs)"





section \<open>The TypeScript compiler and the utility module\<close>

text \<open>
  The functions of the \<open>typescript\<close> package, of Node's \<open>path\<close> module and of the
  modules \<open>util\<close> and \<open>memfs\<close> that the code calls are parameters of the model. A \<open>ts.Program\<close> is represented by
  the names of its source files, which is all the code asks of it
  (\<open>getSourceFile(fileName)\<close> is defined or not).
\<close>

type_synonym program = "string list"

datatype languageService = LanguageService

text \<open>
  The fields \<open>fs\<close> and \<open>versions\<close> of a host and of a configuration are references to
  the file system and the version map that the project manager owns; the objects
  themselves live in the manager's state.
\<close>

datatype fs_ref = LocalFs
datatype versions_ref = Versions

record InMemoryLanguageServiceHost =
  h_rootPath :: string
  h_options :: compilerOptions
  h_fs :: fs_ref
  h_versions :: versions_ref
  expectedFilePaths :: "string list"
  filePaths :: "string list"
  projectVersion :: nat
  complete :: bool

record ts_env =
  parseConfigFileTextToJson :: "string \<Rightarrow> string \<Rightarrow> string + json"
  parseJsonConfigFileContent :: "json \<Rightarrow> InMemoryFileSystem \<Rightarrow> string \<Rightarrow> string list \<times> compilerOptions"
  walkInMemoryFs :: "InMemoryFileSystem \<Rightarrow> string \<Rightarrow> (string \<times> bool) list \<times> error option"
  posix_join :: "string \<Rightarrow> string \<Rightarrow> string"
  isGlobalTSFile :: "string \<Rightarrow> bool"
  isDependencyFile :: "string \<Rightarrow> bool"
  isDeclarationFile :: "string \<Rightarrow> bool"
  getProgram :: "InMemoryLanguageServiceHost \<Rightarrow> program"
  uri2path :: "string \<Rightarrow> string"
  posix_relative :: "string \<Rightarrow> string \<Rightarrow> string"
  normalizeDir :: "string \<Rightarrow> string"

definition incProjectVersion :: "InMemoryLanguageServiceHost \<Rightarrow> InMemoryLanguageServiceHost" where
  "incProjectVersion h = h\<lparr>projectVersion := projectVersion h + 1\<rparr>"

definition addFile :: "string \<Rightarrow> InMemoryLanguageServiceHost \<Rightarrow> InMemoryLanguageServiceHost" where
  "addFile filePath h = incProjectVersion (h\<lparr>filePaths := filePaths h @ [filePath]\<rparr>)"


section \<open>ProjectConfiguration\<close>

record ProjectConfiguration =
  service :: "languageService option"
  program :: "program option"
  host :: "InMemoryLanguageServiceHost option"
  fs :: fs_ref
  configFilePath :: string
  configContent :: "json option"
  versions :: versions_ref
  traceModuleResolution :: bool
  rootFilePath :: string
  initialized :: "outcome option"
  ensuredBasicFiles :: "outcome option"
  ensuredAllFiles :: "outcome option"

text \<open>The constructor: the memoized fields start out undefined.\<close>

definition newProjectConfiguration ::
  "string \<Rightarrow> string \<Rightarrow> json option \<Rightarrow> bool \<Rightarrow> ProjectConfiguration" where
  "newProjectConfiguration rootFile cfgPath cfgContent trace =
     \<lparr>service = None, program = None, host = None, fs = LocalFs,
      configFilePath = cfgPath, configContent = cfgContent, versions = Versions,
      traceModuleResolution = trace, rootFilePath = rootFile,
      initialized = None, ensuredBasicFiles = None, ensuredAllFiles = None\<rparr>"

definition reset :: "ProjectConfiguration \<Rightarrow> ProjectConfiguration" where
  "reset c = c\<lparr>initialized := None, ensuredBasicFiles := None, ensuredAllFiles := None,
               service := None, program := None, host := None\<rparr>"

definition getService :: "ProjectConfiguration \<Rightarrow> error + languageService" where
  "getService c = (case service c of None \<Rightarrow> Inl ProjectUninitialized | Some s \<Rightarrow> Inr s)"

definition getProgramOf :: "ProjectConfiguration \<Rightarrow> error + program" where
  "getProgramOf c = (case program c of None \<Rightarrow> Inl ProjectUninitialized | Some p \<Rightarrow> Inr p)"

definition getHost :: "ProjectConfiguration \<Rightarrow> error + InMemoryLanguageServiceHost" where
  "getHost c = (case host c of None \<Rightarrow> Inl ProjectUninitialized | Some h \<Rightarrow> Inr h)"

text \<open>
  \<open>this.getService().getProgram()\<close>: the language service reads the host it was
  created with, that is the current \<open>host\<close> object.
\<close>

definition requeryProgram :: "ts_env \<Rightarrow> ProjectConfiguration \<Rightarrow> error + ProjectConfiguration" where
  "requeryProgram E c =
     (case getService c of
        Inl e \<Rightarrow> Inl e
      | Inr s \<Rightarrow> (case host c of
                    None \<Rightarrow> Inl ProjectUninitialized
                  | Some h \<Rightarrow> Inr (c\<lparr>program := Some (getProgram E h)\<rparr>)))"


text \<open>
  The configuration object that \<open>init\<close> parses: the inline \<open>configContent\<close> when it is
  truthy, otherwise the parsed text of the configuration file. A failed read throws
  inside the promise's executor, which rejects the promise.
\<close>

definition parsedConfigFile ::
  "ts_env \<Rightarrow> InMemoryFileSystem \<Rightarrow> ProjectConfiguration \<Rightarrow> error + json" where
  "parsedConfigFile E mfs c =
     (case readFile (configFilePath c) mfs of
        Inl e \<Rightarrow> Inl e
      | Inr text \<Rightarrow>
          (case parseConfigFileTextToJson E (configFilePath c) text of
             Inl messageText \<Rightarrow> Inl (CannotParse (configFilePath c) messageText)
           | Inr config \<Rightarrow> Inr config))"

definition configObjectOf ::
  "ts_env \<Rightarrow> InMemoryFileSystem \<Rightarrow> ProjectConfiguration \<Rightarrow> error + json" where
  "configObjectOf E mfs c =
     (case configContent c of
        None \<Rightarrow> parsedConfigFile E mfs c
      | Some j \<Rightarrow> (if \<not> truthy j then parsedConfigFile E mfs c else Inr j))"

text \<open>The executor of the promise that \<open>init\<close> creates; it runs synchronously.\<close>

definition init_executor ::
  "ts_env \<Rightarrow> InMemoryFileSystem \<Rightarrow> ProjectConfiguration \<Rightarrow> outcome \<times> ProjectConfiguration" where
  "init_executor E mfs c =
     (case configObjectOf E mfs c of
        Inl e \<Rightarrow> (Inl e, c)
      | Inr configObject \<Rightarrow>
          (let dir = parentDir (configFilePath c);
               base = (if dir \<noteq> [] then dir else path mfs);
               configParseResult = parseJsonConfigFileContent E configObject mfs base;
               nodeModulesDir = posix_join E base ''node_modules'';
               walk = walkInMemoryFs E mfs nodeModulesDir;
               expFiles = fst configParseResult @
                          map fst (filter (\<lambda>(p, isdir). \<not> isdir \<and> isGlobalTSFile E p) (fst walk))
           in (case snd walk of
                 Some err \<Rightarrow> (Inl err, c)
               | None \<Rightarrow>
                   (let options0 = snd configParseResult;
                        options1 = (if isFileNamed ''jsconfig.json'' (configFilePath c)
                                    then AList.update ''allowJs'' (JBool True) options0
                                    else options0);
                        options2 = (if traceModuleResolution c
                                    then AList.update ''traceResolution'' (JBool True) options1
                                    else options1);
                        h = \<lparr>h_rootPath = path mfs, h_options = options2,
                             h_fs = fs c, h_versions = versions c,
                             expectedFilePaths = expFiles, filePaths = [],
                             projectVersion = 1, complete = False\<rparr>
                    in (Inr (), c\<lparr>host := Some h, service := Some LanguageService,
                                  program := Some (getProgram E h)\<rparr>)))))"

definition init ::
  "ts_env \<Rightarrow> InMemoryFileSystem \<Rightarrow> ProjectConfiguration \<Rightarrow> outcome \<times> ProjectConfiguration" where
  "init E mfs c =
     (case initialized c of
        Some r \<Rightarrow> (r, c)
      | None \<Rightarrow> (let (r, c') = init_executor E mfs c in (r, c'\<lparr>initialized := Some r\<rparr>)))"

definition ensureConfigFile ::
  "ts_env \<Rightarrow> InMemoryFileSystem \<Rightarrow> ProjectConfiguration \<Rightarrow> outcome \<times> ProjectConfiguration" where
  "ensureConfigFile E mfs c = init E mfs c"

text \<open>
  The loops of \<open>ensureBasicFiles\<close> and \<open>ensureAllFiles\<close> over the expected files: a
  file the program has no source file for is added to the host. The program is the one
  cached before the loop; \<open>getProgram()\<close> is called for each file the loop looks at and
  throws when no program is cached. The predicate selects the files the loop looks at.
\<close>

fun addMissing ::
  "(string \<Rightarrow> bool) \<Rightarrow> program option \<Rightarrow> string list \<Rightarrow> InMemoryLanguageServiceHost \<Rightarrow> bool
   \<Rightarrow> error + InMemoryLanguageServiceHost \<times> bool" where
  "addMissing wanted prog [] h changed = Inr (h, changed)"
| "addMissing wanted prog (fileName # rest) h changed =
     (if wanted fileName
      then (case prog of
              None \<Rightarrow> Inl ProjectUninitialized
            | Some sourceFiles \<Rightarrow>
                (if fileName \<notin> set sourceFiles
                 then addMissing wanted prog rest (addFile fileName h) True
                 else addMissing wanted prog rest h changed))
      else addMissing wanted prog rest h changed)"

definition isBasicFile :: "ts_env \<Rightarrow> string \<Rightarrow> bool" where
  "isBasicFile E fileName \<longleftrightarrow>
     isGlobalTSFile E fileName \<or> (\<not> isDependencyFile E fileName \<and> isDeclarationFile E fileName)"

text \<open>The callback that \<open>ensureBasicFiles\<close> chains to \<open>init()\<close>.\<close>

definition basicFilesBody :: "ts_env \<Rightarrow> ProjectConfiguration \<Rightarrow> outcome \<times> ProjectConfiguration" where
  "basicFilesBody E c =
     (case getHost c of
        Inl e \<Rightarrow> (Inl e, c)
      | Inr h \<Rightarrow>
          (case addMissing (isBasicFile E) (program c) (expectedFilePaths h) h False of
             Inl e \<Rightarrow> (Inl e, c)
           | Inr (h', changed) \<Rightarrow>
               (let c' = c\<lparr>host := Some h'\<rparr>
                in if changed
                   then (case requeryProgram E c' of
                           Inl e \<Rightarrow> (Inl e, c')
                         | Inr c'' \<Rightarrow> (Inr (), c''))
                   else (Inr (), c'))))"

definition ensureBasicFiles ::
  "ts_env \<Rightarrow> InMemoryFileSystem \<Rightarrow> ProjectConfiguration \<Rightarrow> outcome \<times> ProjectConfiguration" where
  "ensureBasicFiles E mfs c =
     (case ensuredBasicFiles c of
        Some r \<Rightarrow> (r, c)
      | None \<Rightarrow>
          (let (r0, c0) = init E mfs c;
               (r, c1) = (case r0 of Inl e \<Rightarrow> (Inl e, c0) | Inr u \<Rightarrow> basicFilesBody E c0)
           in (r, c1\<lparr>ensuredBasicFiles := Some r\<rparr>)))"

text \<open>The callback that \<open>ensureAllFiles\<close> chains to \<open>init()\<close>.\<close>

definition allFilesBody :: "ts_env \<Rightarrow> ProjectConfiguration \<Rightarrow> outcome \<times> ProjectConfiguration" where
  "allFilesBody E c =
     (case getHost c of
        Inl e \<Rightarrow> (Inl e, c)
      | Inr h \<Rightarrow>
          (if complete h then (Inr (), c)
           else (case addMissing (\<lambda>f. True) (program c) (expectedFilePaths h) h False of
                   Inl e \<Rightarrow> (Inl e, c)
                 | Inr (h', changed) \<Rightarrow>
                     (let c' = c\<lparr>host := Some h'\<rparr>
                      in if changed
                         then (case requeryProgram E c' of
                                 Inl e \<Rightarrow> (Inl e, c')
                               | Inr c'' \<Rightarrow>
                                   (Inr (), c''\<lparr>host := map_option (\<lambda>x. x\<lparr>complete := True\<rparr>) (host c'')\<rparr>))
                         else (Inr (), c'\<lparr>host := Some (h'\<lparr>complete := True\<rparr>)\<rparr>)))))"

definition ensureAllFiles ::
  "ts_env \<Rightarrow> InMemoryFileSystem \<Rightarrow> ProjectConfiguration \<Rightarrow> outcome \<times> ProjectConfiguration" where
  "ensureAllFiles E mfs c =
     (case ensuredAllFiles c of
        Some r \<Rightarrow> (r, c)
      | None \<Rightarrow>
          (let (r0, c0) = init E mfs c;
               (r, c1) = (case r0 of Inl e \<Rightarrow> (Inl e, c0) | Inr u \<Rightarrow> allFilesBody E c0)
           in (r, c1\<lparr>ensuredAllFiles := Some r\<rparr>)))"


section \<open>FileSystemUpdater\<close>

text \<open>
  A promise is identified by its position in the list of all promises the updater has
  created. A content fetch waits for a permit of the semaphore (\<open>Queued\<close>), then calls
  the remote file system (\<open>Running\<close>) and is settled when the answer arrives. The two
  request logs record the calls to \<open>remoteFs.getTextDocumentContent\<close> and
  \<open>remoteFs.getWorkspaceFiles\<close>, and \<open>fsCalls\<close> records the calls that the
  updater makes on the in-memory file system.
\<close>

datatype fs_call = Add string "string option" | GetContent string

datatype pstate = Queued | Running | Fulfilled | Rejected error

datatype job = ContentFetch string | StructureFetch

record FileSystemUpdater =
  structureFetch :: "nat option"
  fetches :: "string \<rightharpoonup> nat"
  inMemoryFs :: InMemoryFileSystem
  promises :: "(job \<times> pstate) list"
  contentRequests :: "string list"
  filesRequests :: nat
  fsCalls :: "fs_call list"

definition newFileSystemUpdater :: "InMemoryFileSystem \<Rightarrow> FileSystemUpdater" where
  "newFileSystemUpdater mfs =
     \<lparr>structureFetch = None, fetches = Map.empty, inMemoryFs = mfs, promises = [],
      contentRequests = [], filesRequests = 0, fsCalls = []\<rparr>"

text \<open>\<open>fetch\<close>: the promise is created and stored in the table; its body runs later.\<close>

definition fetch :: "string \<Rightarrow> FileSystemUpdater \<Rightarrow> nat \<times> FileSystemUpdater" where
  "fetch uri u =
     (let n = length (promises u)
      in (n, u\<lparr>promises := promises u @ [(ContentFetch uri, Queued)],
               fetches := (fetches u)(uri \<mapsto> n)\<rparr>))"

definition ensure :: "string \<Rightarrow> FileSystemUpdater \<Rightarrow> nat \<times> FileSystemUpdater" where
  "ensure uri u = (case fetches u uri of Some n \<Rightarrow> (n, u) | None \<Rightarrow> fetch uri u)"

definition invalidate :: "string \<Rightarrow> FileSystemUpdater \<Rightarrow> FileSystemUpdater" where
  "invalidate uri u = u\<lparr>fetches := (fetches u)(uri := None)\<rparr>"

definition running :: "FileSystemUpdater \<Rightarrow> nat" where
  "running u = length (filter (\<lambda>(j, st). j \<noteq> StructureFetch \<and> st = Running) (promises u))"

text \<open>
  The semaphore (\<open>new Semaphore(100)\<close>) lets the body of a queued fetch start:
  \<open>remoteFs.getTextDocumentContent(uri)\<close> is called.
\<close>

definition fetch_started :: "nat \<Rightarrow> FileSystemUpdater \<Rightarrow> FileSystemUpdater" where
  "fetch_started n u =
     (if n < length (promises u) \<and> running u < 100
      then (case promises u ! n of
              (ContentFetch uri, Queued) \<Rightarrow>
                u\<lparr>promises := (promises u)[n := (ContentFetch uri, Running)],
                  contentRequests := contentRequests u @ [uri]\<rparr>
            | _ \<Rightarrow> u)
      else u)"

text \<open>The \<open>catch\<close> block of \<open>fetch\<close>: the entry is deleted and the error thrown again.\<close>

definition fetch_failed :: "nat \<Rightarrow> string \<Rightarrow> error \<Rightarrow> FileSystemUpdater \<Rightarrow> FileSystemUpdater" where
  "fetch_failed n uri err u =
     u\<lparr>fetches := (fetches u)(uri := None),
       promises := (promises u)[n := (ContentFetch uri, Rejected err)]\<rparr>"

text \<open>The remote file system answers with the content: the \<open>try\<close> block continues.\<close>

definition fetch_resolved :: "nat \<Rightarrow> string \<Rightarrow> FileSystemUpdater \<Rightarrow> FileSystemUpdater" where
  "fetch_resolved n content u =
     (if n < length (promises u)
      then (case promises u ! n of
              (ContentFetch uri, Running) \<Rightarrow>
                (let u' = u\<lparr>inMemoryFs := add uri (Some content) (inMemoryFs u),
                           fsCalls := fsCalls u @ [Add uri (Some content), GetContent uri]\<rparr>
                 in (case getContent uri (inMemoryFs u') of
                       Inl err \<Rightarrow> fetch_failed n uri err u'
                     | Inr text \<Rightarrow> u'\<lparr>promises := (promises u')[n := (ContentFetch uri, Fulfilled)]\<rparr>))
            | _ \<Rightarrow> u)
      else u)"

text \<open>The remote file system answers with an error.\<close>

definition fetch_rejected :: "nat \<Rightarrow> error \<Rightarrow> FileSystemUpdater \<Rightarrow> FileSystemUpdater" where
  "fetch_rejected n err u =
     (if n < length (promises u)
      then (case promises u ! n of
              (ContentFetch uri, Running) \<Rightarrow> fetch_failed n uri err u
            | _ \<Rightarrow> u)
      else u)"

text \<open>
  \<open>fetchStructure\<close>: the asynchronous body runs up to its first \<open>await\<close>, so
  \<open>remoteFs.getWorkspaceFiles\<close> is called at once; then the promise is stored.
\<close>

definition fetchStructure :: "FileSystemUpdater \<Rightarrow> nat \<times> FileSystemUpdater" where
  "fetchStructure u =
     (let n = length (promises u)
      in (n, u\<lparr>promises := promises u @ [(StructureFetch, Running)],
               filesRequests := filesRequests u + 1,
               structureFetch := Some n\<rparr>))"

definition ensureStructure :: "FileSystemUpdater \<Rightarrow> nat \<times> FileSystemUpdater" where
  "ensureStructure u = (case structureFetch u of Some n \<Rightarrow> (n, u) | None \<Rightarrow> fetchStructure u)"

definition invalidateStructure :: "FileSystemUpdater \<Rightarrow> FileSystemUpdater" where
  "invalidateStructure u = u\<lparr>structureFetch := None\<rparr>"

definition structure_resolved :: "nat \<Rightarrow> string list \<Rightarrow> FileSystemUpdater \<Rightarrow> FileSystemUpdater" where
  "structure_resolved n found u =
     (if n < length (promises u) \<and> promises u ! n = (StructureFetch, Running)
      then u\<lparr>inMemoryFs := foldl (\<lambda>mfs uri. add uri None mfs) (inMemoryFs u) found,
             fsCalls := fsCalls u @ map (\<lambda>uri. Add uri None) found,
             promises := (promises u)[n := (StructureFetch, Fulfilled)]\<rparr>
      else u)"

definition structure_rejected :: "nat \<Rightarrow> error \<Rightarrow> FileSystemUpdater \<Rightarrow> FileSystemUpdater" where
  "structure_rejected n err u =
     (if n < length (promises u) \<and> promises u ! n = (StructureFetch, Running)
      then u\<lparr>structureFetch := None,
             promises := (promises u)[n := (StructureFetch, Rejected err)]\<rparr>
      else u)"

text \<open>
  The older copy of the updater declares \<open>ensureStructure\<close> as an \<open>async\<close> function
  whose body is \<open>return await this.structureFetch || this.fetchStructure()\<close>. The
  operator \<open>await\<close> binds tighter than \<open>||\<close>: the function first awaits the stored
  promise (or \<open>undefined\<close>) and then, the awaited value of a \<open>Promise<void>\<close> being
  \<open>undefined\<close>, calls \<open>fetchStructure\<close>. The first function gives the promise the call
  waits for; the second is the continuation, which can run once that promise is
  settled.
\<close>

definition ensureStructure_async_awaits :: "FileSystemUpdater \<Rightarrow> nat option" where
  "ensureStructure_async_awaits u = structureFetch u"

definition ensureStructure_async_resume ::
  "nat option \<Rightarrow> FileSystemUpdater \<Rightarrow> ((error + nat) \<times> FileSystemUpdater) option" where
  "ensureStructure_async_resume awaited u =
     (case awaited of
        None \<Rightarrow> (let (n, u') = fetchStructure u in Some (Inr n, u'))
      | Some m \<Rightarrow>
          (if m < length (promises u)
           then (case snd (promises u ! m) of
                   Fulfilled \<Rightarrow> (let (n, u') = fetchStructure u in Some (Inr n, u'))
                 | Rejected err \<Rightarrow> Some (Inl err, u)
                 | _ \<Rightarrow> None)
           else None))"

text \<open>The calls and continuations that can happen to an updater, one at a time.\<close>

datatype event =
    Ensure string
  | Invalidate string
  | Started nat
  | Resolved nat string
  | Failed nat error
  | EnsureStructure
  | FetchStructure
  | InvalidateStructure
  | StructureResolved nat "string list"
  | StructureFailed nat error

fun step :: "event \<Rightarrow> FileSystemUpdater \<Rightarrow> FileSystemUpdater" where
  "step (Ensure uri) u = snd (ensure uri u)"
| "step (Invalidate uri) u = invalidate uri u"
| "step (Started n) u = fetch_started n u"
| "step (Resolved n content) u = fetch_resolved n content u"
| "step (Failed n err) u = fetch_rejected n err u"
| "step EnsureStructure u = snd (ensureStructure u)"
| "step FetchStructure u = snd (fetchStructure u)"
| "step InvalidateStructure u = invalidateStructure u"
| "step (StructureResolved n found) u = structure_resolved n found u"
| "step (StructureFailed n err) u = structure_rejected n err u"

definition run :: "event list \<Rightarrow> FileSystemUpdater \<Rightarrow> FileSystemUpdater" where
  "run es u = foldl (\<lambda>s e. step e s) u es"


section \<open>ProjectManager\<close>

text \<open>
  The manager and its updater share one in-memory file system: it is stored once, in
  the updater, and \<open>localFs\<close> reads it from there. \<open>pm_versions\<close> is the version map
  (\<open>this.versions\<close>) that every configuration holds a reference to.
\<close>

record ProjectManager =
  rootPath :: string
  configs :: "(string \<times> ProjectConfiguration) list"
  strict :: bool
  updater :: FileSystemUpdater
  pm_versions :: "string \<rightharpoonup> nat"
  pm_traceModuleResolution :: bool

definition localFs :: "ProjectManager \<Rightarrow> InMemoryFileSystem" where
  "localFs pm = inMemoryFs (updater pm)"

definition newProjectManager ::
  "string \<Rightarrow> InMemoryFileSystem \<Rightarrow> bool \<Rightarrow> bool \<Rightarrow> ProjectManager" where
  "newProjectManager root mfs strictMode trace =
     \<lparr>rootPath = root, configs = [], strict = strictMode,
      updater = newFileSystemUpdater mfs, pm_versions = Map.empty,
      pm_traceModuleResolution = trace\<rparr>"

text \<open>
  \<open>getConfiguration\<close>: the \<open>while\<close> loop climbs from the file path itself; the result
  carries the key the configuration is registered under. The loop need not end, so the
  function is partial: \<open>None\<close> is a call that never returns.
\<close>

partial_function (option) configFrom ::
  "(string \<times> ProjectConfiguration) list \<Rightarrow> string \<Rightarrow> string \<Rightarrow> string
   \<Rightarrow> (error + string \<times> ProjectConfiguration) option" where
  "configFrom cs root filePath dir =
     (if dir \<noteq> [] \<and> dir \<noteq> root
      then (case map_of cs dir of
              Some config \<Rightarrow> Some (Inr (dir, config))
            | None \<Rightarrow> configFrom cs root filePath (parentDir dir))
      else (case map_of cs [] of
              Some config \<Rightarrow> Some (Inr ([], config))
            | None \<Rightarrow> Some (Inl (ConfigNotFound filePath))))"

definition getConfiguration ::
  "ProjectManager \<Rightarrow> string \<Rightarrow> (error + string \<times> ProjectConfiguration) option" where
  "getConfiguration pm filePath = configFrom (configs pm) (rootPath pm) filePath filePath"


definition bumpVersion :: "string \<Rightarrow> ProjectManager \<Rightarrow> ProjectManager" where
  "bumpVersion filePath pm =
     pm\<lparr>pm_versions := (pm_versions pm)
        (filePath \<mapsto> (case pm_versions pm filePath of None \<Rightarrow> 0 | Some v \<Rightarrow> v) + 1)\<rparr>"






text \<open>
  \<open>createConfigurations\<close>: the loop over the known files collects the directories of
  the project markers in \<open>rootdirs\<close> and registers a configuration for each directory
  that has none yet.
\<close>

definition catchAllContent :: json where
  "catchAllContent =
     JObj [(''compilerOptions'',
            JObj [(''module'', JNum 1), (''allowNonTsExtensions'', JBool False),
                  (''allowJs'', JBool True)])]"

fun createLoop ::
  "ts_env \<Rightarrow> bool \<Rightarrow> string list
   \<Rightarrow> (string \<times> ProjectConfiguration) list \<times> string list
   \<Rightarrow> (string \<times> ProjectConfiguration) list \<times> string list" where
  "createLoop E trace [] acc = acc"
| "createLoop E trace (relativeFilePath # rest) (cs, rootdirs) =
     (if \<not> isProjectMarker relativeFilePath then createLoop E trace rest (cs, rootdirs)
      else if inNodeModules relativeFilePath then createLoop E trace rest (cs, rootdirs)
      else (let dir = parentDir relativeFilePath;
                cs' = (if map_of cs dir = None
                       then AList.update dir
                              (newProjectConfiguration (posix_join E ''/'' dir) relativeFilePath None trace) cs
                       else cs)
            in createLoop E trace rest (cs', dir # rootdirs)))"

definition relativeFilePaths :: "ts_env \<Rightarrow> ProjectManager \<Rightarrow> string list" where
  "relativeFilePaths E pm =
     map (\<lambda>uri. posix_relative E (rootPath pm) (uri2path E uri)) (uris (localFs pm))"

definition createConfigurations :: "ts_env \<Rightarrow> ProjectManager \<Rightarrow> ProjectManager" where
  "createConfigurations E pm =
     (let (cs, rootdirs) =
            createLoop E (pm_traceModuleResolution pm) (relativeFilePaths E pm) (configs pm, [])
      in pm\<lparr>configs :=
              (if [] \<notin> set rootdirs \<and> map_of cs [] = None
               then AList.update []
                      (newProjectConfiguration ''/'' [] (Some catchAllContent) (pm_traceModuleResolution pm)) cs
               else cs)\<rparr>)"

text \<open>
  The last loop of \<open>refreshFileTree\<close>: every configuration whose directory lies inside,
  contains or equals the refreshed directory is reset.
\<close>

definition affected :: "ts_env \<Rightarrow> string \<Rightarrow> string \<Rightarrow> bool" where
  "affected E root dir0 \<longleftrightarrow>
     (let dir = normalizeDir E dir0
      in startsWith dir (root @ ''/'') \<or> startsWith root (dir @ ''/'') \<or> root = dir)"

definition resetAffected :: "ts_env \<Rightarrow> string \<Rightarrow> ProjectManager \<Rightarrow> ProjectManager" where
  "resetAffected E rootPath0 pm =
     (let root = normalizeDir E rootPath0
      in pm\<lparr>configs := map (\<lambda>(dir, config).
                                 (dir, if affected E root dir then reset config else config))
                            (configs pm)\<rparr>)"


section \<open>The dependency crawl\<close>

text \<open>
  \<open>ensureTransitiveFileDependencies\<close>. What the crawl asks of its surroundings is a
  parameter: \<open>ens uri\<close> is the outcome of \<open>await this.updater.ensure(uri)\<close>, and
  \<open>imports uri\<close> is the set \<open>importPaths\<close> that the body computes for the file from its
  configuration, its content and the compiler (or the error thrown on the way). The
  state holds the set \<open>seen\<close> and, for observation, the list of the calls in the order
  they were entered.

  A call runs up to its first \<open>await\<close> at once: it adds its path to \<open>seen\<close> and asks
  the updater (\<open>enter\<close>). The rest of the body (\<open>resume\<close>) runs when the awaited fetch
  is settled. \<open>Promise.all\<close> over the mapped imports therefore enters every import, in
  order, before any of them resumes; the branches then resume one after the other, which
  is the schedule where each fetch settles after the branch before it has finished. No
  branch reads what another one writes, so the calls made are the same in every
  schedule. An error of a branch is caught and logged by its parent.
\<close>

record crawl_state =
  seen :: "string set"
  visited :: "string list"

definition enter :: "string \<Rightarrow> crawl_state \<Rightarrow> crawl_state" where
  "enter uri st = st\<lparr>seen := insert uri (seen st), visited := visited st @ [uri]\<rparr>"

fun resume ::
      "(string \<Rightarrow> outcome) \<Rightarrow> (string \<Rightarrow> error + string list) \<Rightarrow> nat \<Rightarrow> string
       \<Rightarrow> crawl_state \<Rightarrow> outcome \<times> crawl_state"
  and resumeAll ::
      "(string \<Rightarrow> outcome) \<Rightarrow> (string \<Rightarrow> error + string list) \<Rightarrow> nat \<Rightarrow> string list
       \<Rightarrow> crawl_state \<Rightarrow> crawl_state" where
  "resume ens imports 0 uri st = (ens uri, st)"
| "resume ens imports (Suc d) uri st =
     (case ens uri of
        Inl e \<Rightarrow> (Inl e, st)
      | Inr u \<Rightarrow>
          (case imports uri of
             Inl e \<Rightarrow> (Inl e, st)
           | Inr importPaths \<Rightarrow>
               (Inr (), resumeAll ens imports d importPaths
                          (foldl (\<lambda>s importPath. enter importPath s) st importPaths))))"
| "resumeAll ens imports d [] st = st"
| "resumeAll ens imports d (importPath # rest) st =
     resumeAll ens imports d rest (snd (resume ens imports d importPath st))"

definition ensureTransitiveFileDependencies ::
  "(string \<Rightarrow> outcome) \<Rightarrow> (string \<Rightarrow> error + string list) \<Rightarrow> nat \<Rightarrow> string
   \<Rightarrow> crawl_state \<Rightarrow> outcome \<times> crawl_state" where
  "ensureTransitiveFileDependencies ens imports maxDepth uri st =
     resume ens imports maxDepth uri (enter uri st)"


section \<open>A small workspace for the examples\<close>

text \<open>
  A compiler stub for the concrete runs below: a configuration text parses exactly when
  it is \<open>{}\<close>, a parsed configuration names no files and no options, and the
  dependency directory holds no global declarations.
\<close>

definition demoEnv :: ts_env where
  "demoEnv =
     \<lparr>parseConfigFileTextToJson = (\<lambda>p t. if t = ''{}'' then Inr (JObj []) else Inl ''syntax error''),
      parseJsonConfigFileContent = (\<lambda>j mfs base. ([], [])),
      walkInMemoryFs = (\<lambda>mfs dir. ([], None)),
      posix_join = (\<lambda>a b. if a = ''/'' then a @ b else a @ ''/'' @ b),
      isGlobalTSFile = (\<lambda>p. False),
      isDependencyFile = (\<lambda>p. False),
      isDeclarationFile = (\<lambda>p. False),
      getProgram = (\<lambda>h. filePaths h),
      uri2path = (\<lambda>uri. uri),
      posix_relative = (\<lambda>root p. p),
      normalizeDir = (\<lambda>dir. dir)\<rparr>"

definition demoFs :: "string \<Rightarrow> InMemoryFileSystem" where
  "demoFs text = \<lparr>path = ''/'', files = [(''tsconfig.json'', Fetched text)], edited = {}\<rparr>"

definition demoConfig :: ProjectConfiguration where
  "demoConfig = newProjectConfiguration ''/'' ''tsconfig.json'' None False"


section \<open>Reading the specification of the registry\<close>

text \<open>
  The words of the specification for the lookup of a configuration: the directories
  that are walked, upward from a starting directory until the empty path or the root
  path is reached (the number bounds the length of the walk), the first of them that
  has a registered configuration, and the fallback to the configuration of the root.
\<close>

definition isRelative :: "string \<Rightarrow> bool" where
  "isRelative p \<longleftrightarrow> \<not> startsWith p ''/''"

text \<open>
  The paths whose walk reaches the workspace root: the paths relative to the root, and
  every path when the root path is \<open>/\<close>.
\<close>

definition climbs :: "string \<Rightarrow> string \<Rightarrow> bool" where
  "climbs root p \<longleftrightarrow> isRelative p \<or> root = ''/''"

fun candidates :: "string \<Rightarrow> string \<Rightarrow> nat \<Rightarrow> string list" where
  "candidates root dir 0 = []"
| "candidates root dir (Suc n) =
     (if dir \<noteq> [] \<and> dir \<noteq> root then dir # candidates root (parentDir dir) n else [])"

fun firstRegistered ::
  "(string \<times> ProjectConfiguration) list \<Rightarrow> string list
   \<Rightarrow> (string \<times> ProjectConfiguration) option" where
  "firstRegistered cs [] = None"
| "firstRegistered cs (d # ds) =
     (case map_of cs d of Some c \<Rightarrow> Some (d, c) | None \<Rightarrow> firstRegistered cs ds)"

definition resolved ::
  "(string \<times> ProjectConfiguration) list \<Rightarrow> string \<Rightarrow> string list
   \<Rightarrow> error + string \<times> ProjectConfiguration" where
  "resolved cs filePath dirs =
     (case firstRegistered cs dirs of
        Some kc \<Rightarrow> Inr kc
      | None \<Rightarrow> (case map_of cs [] of
                   Some c \<Rightarrow> Inr ([], c)
                 | None \<Rightarrow> Inl (ConfigNotFound filePath)))"

text \<open>
  The project marker files of the workspace: the known files, relative to the root,
  that are named \<open>tsconfig.json\<close> or \<open>jsconfig.json\<close> and do not lie in a
  \<open>node_modules\<close> directory.
\<close>

definition markerFiles :: "ts_env \<Rightarrow> ProjectManager \<Rightarrow> string list" where
  "markerFiles E pm =
     filter (\<lambda>p. isProjectMarker p \<and> \<not> inNodeModules p) (relativeFilePaths E pm)"

text \<open>A workspace whose only file is the marker of a project in the directory \<open>sub\<close>.\<close>

definition demoSubPm :: ProjectManager where
  "demoSubPm =
     newProjectManager ''/''
       \<lparr>path = ''/'', files = [(''sub/tsconfig.json'', Placeholder)], edited = {}\<rparr> True False"


text \<open>
  The same workspace opened under the root path \<open>/ws\<close>, after
  \<open>createConfigurations\<close>: the project \<open>sub\<close> and the catch-all are registered.
\<close>

definition demoWsPm :: ProjectManager where
  "demoWsPm = createConfigurations demoEnv
                (newProjectManager ''/ws''
                   \<lparr>path = ''/ws'', files = [(''sub/tsconfig.json'', Placeholder)], edited = {}\<rparr>
                   True False)"




section \<open>Observing the updater\<close>

text \<open>
  A fetch of a path is \<open>live\<close> while it is queued, running or fulfilled; it has
  \<open>started\<close> once the remote file system was asked, and it has \<open>failed\<close> when its promise
  is rejected. The invariant \<open>sfI\<close> ties the single-flight table to the promises: the
  entry of the path is its one live fetch, and every request sent for the path belongs to
  a fetch that has started.
\<close>

definition isRejected :: "pstate \<Rightarrow> bool" where
  "isRejected st = (case st of Rejected e \<Rightarrow> True | _ \<Rightarrow> False)"













text \<open>An updater over an empty file system, and an updater event seen from the manager.\<close>

definition demoUpdater :: FileSystemUpdater where
  "demoUpdater = newFileSystemUpdater \<lparr>path = ''/'', files = [], edited = {}\<rparr>"


text \<open>Two files that import each other, and the state a crawl starts from.\<close>

definition cyclicImports :: "string \<Rightarrow> error + string list" where
  "cyclicImports uri =
     (if uri = ''a.ts'' then Inr [''b.ts''] else if uri = ''b.ts'' then Inr [''a.ts''] else Inr [])"

definition freshCrawl :: crawl_state where
  "freshCrawl = \<lparr>seen = {}, visited = []\<rparr>"


section \<open>Properties of ProjectConfiguration\<close>

text \<open>
  C10. \<open>reset\<close> clears the six memoized fields (\<open>initialized\<close>, \<open>ensuredBasicFiles\<close>,
  \<open>ensuredAllFiles\<close>, \<open>service\<close>, \<open>program\<close>, \<open>host\<close>) and leaves every other field
  of the configuration as it was. Where the project manager resets configurations (the
  last loop of \<open>refreshFileTree\<close>), the shared version map, the updater with the shared
  file system, and the keys of the registered configurations are unchanged: the
  version numbers of the files survive a reset.
\<close>

theorem reset_frame:
  "initialized (reset c) = None \<and> ensuredBasicFiles (reset c) = None \<and>
   ensuredAllFiles (reset c) = None \<and> service (reset c) = None \<and>
   program (reset c) = None \<and> host (reset c) = None \<and>
   configFilePath (reset c) = configFilePath c \<and> configContent (reset c) = configContent c \<and>
   rootFilePath (reset c) = rootFilePath c \<and> fs (reset c) = fs c \<and>
   versions (reset c) = versions c \<and>
   traceModuleResolution (reset c) = traceModuleResolution c \<and>
   pm_versions (resetAffected E root pm) = pm_versions pm \<and>
   updater (resetAffected E root pm) = updater pm \<and>
   localFs (resetAffected E root pm) = localFs pm \<and>
   map fst (configs (resetAffected E root pm)) = map fst (configs pm)"
  by (simp add: reset_def resetAffected_def localFs_def split_def comp_def Let_def)

lemma init_cached: "initialized c = Some r \<Longrightarrow> init E mfs c = (r, c)"
  by (simp add: init_def)

lemma init_executor_fail: "init_executor E mfs c = (Inl e, c') \<Longrightarrow> c' = c"
  by (auto simp: init_executor_def Let_def split: sum.splits option.splits)

lemma init_fail:
  assumes "initialized c = None" and "init E mfs c = (Inl e, c')"
  shows "c' = c\<lparr>initialized := Some (Inl e)\<rparr>"
proof -
  obtain r c0 where ex: "init_executor E mfs c = (r, c0)"
    by (cases "init_executor E mfs c")
  with assms have "r = Inl e" and "c' = c0\<lparr>initialized := Some r\<rparr>"
    by (auto simp: init_def)
  with ex init_executor_fail[of E mfs c e c0] show ?thesis by simp
qed

text \<open>
  C5, as the code has it. If \<open>init\<close> fails on a configuration that was not initialized
  (in particular when the configuration text does not parse), then \<open>host\<close>, \<open>service\<close>
  and \<open>program\<close> stay as they were, so the project remains uninitialized; but the
  rejected promise is kept in \<open>initialized\<close>. A later \<open>ensureConfigFile\<close> returns that
  same failure without reading the file system again and leaves the configuration
  unchanged, whatever the files now contain, and \<open>ensureBasicFiles\<close> fails with the
  same error. Only \<open>reset\<close> clears the cached state: after it the configuration is the
  one a reset before the failure would have given, and the next call parses again.
\<close>

theorem init_failure_is_cached:
  assumes "initialized c = None" and "init E mfs c = (Inl e, c')"
  shows "initialized c' = Some (Inl e) \<and> host c' = host c \<and> service c' = service c \<and>
         program c' = program c \<and>
         ensureConfigFile E mfs' c' = (Inl e, c') \<and>
         (ensuredBasicFiles c' = None \<longrightarrow>
            ensureBasicFiles E mfs' c' = (Inl e, c'\<lparr>ensuredBasicFiles := Some (Inl e)\<rparr>)) \<and>
         reset c' = reset c \<and> initialized (reset c') = None"
  using init_fail[OF assms]
  by (simp add: ensureConfigFile_def init_def ensureBasicFiles_def reset_def)

theorem init_failure_is_cached_witness:
  "initialized demoConfig = None \<and>
   init demoEnv (demoFs ''{'') demoConfig =
     (Inl (CannotParse ''tsconfig.json'' ''syntax error''),
      demoConfig\<lparr>initialized := Some (Inl (CannotParse ''tsconfig.json'' ''syntax error''))\<rparr>) \<and>
   ensureConfigFile demoEnv (demoFs ''{}'')
       (demoConfig\<lparr>initialized := Some (Inl (CannotParse ''tsconfig.json'' ''syntax error''))\<rparr>) =
     (Inl (CannotParse ''tsconfig.json'' ''syntax error''),
      demoConfig\<lparr>initialized := Some (Inl (CannotParse ''tsconfig.json'' ''syntax error''))\<rparr>)"
proof -
  have a: "initialized demoConfig = None"
    by (simp add: demoConfig_def newProjectConfiguration_def)
  have b: "init demoEnv (demoFs ''{'') demoConfig =
     (Inl (CannotParse ''tsconfig.json'' ''syntax error''),
      demoConfig\<lparr>initialized := Some (Inl (CannotParse ''tsconfig.json'' ''syntax error''))\<rparr>)"
    by (simp add: init_def init_executor_def configObjectOf_def parsedConfigFile_def readFile_def
        getContent_def
        demoConfig_def newProjectConfiguration_def demoFs_def demoEnv_def)
  from init_failure_is_cached[OF a b, of "demoFs ''{}''"] a b show ?thesis by simp
qed

text \<open>
  The claim C5 as it was stated fails on the code: the configuration file holds \<open>{\<close>,
  parsing fails, and the failure stays in \<open>initialized\<close>. After the file has been
  corrected to \<open>{}\<close>, \<open>ensureConfigFile\<close> and \<open>ensureBasicFiles\<close> still return the
  parse error, although a configuration that had not failed before initializes well on
  the same file system.
\<close>

theorem parse_failure_stays_cached:
  "initialized (snd (ensureConfigFile demoEnv (demoFs ''{'') demoConfig)) \<noteq> None \<and>
   fst (ensureConfigFile demoEnv (demoFs ''{}'')
          (snd (ensureConfigFile demoEnv (demoFs ''{'') demoConfig)))
     = Inl (CannotParse ''tsconfig.json'' ''syntax error'') \<and>
   fst (ensureBasicFiles demoEnv (demoFs ''{}'')
          (snd (ensureConfigFile demoEnv (demoFs ''{'') demoConfig)))
     = Inl (CannotParse ''tsconfig.json'' ''syntax error'') \<and>
   fst (ensureConfigFile demoEnv (demoFs ''{}'') demoConfig) = Inr ()"
  by (simp add: ensureConfigFile_def ensureBasicFiles_def init_def init_executor_def
      configObjectOf_def parsedConfigFile_def readFile_def getContent_def parentDir_def
      posix_dirname_def
      isFileNamed_def endsWith_def demoConfig_def newProjectConfiguration_def demoFs_def
      demoEnv_def Let_def)


section \<open>Properties of the project registry\<close>

lemma dirname_loop_bound: "dirname_loop p i b = Some e \<Longrightarrow> 1 \<le> e \<and> e \<le> i"
proof (induction i arbitrary: b)
  case 0
  then show ?case by simp
next
  case (Suc i)
  then show ?case
    by (fastforce split: if_splits)
qed

lemma parentDir_relative:
  assumes "isRelative p" and "p \<noteq> []"
  shows "isRelative (parentDir p) \<and> length (parentDir p) < length p"
proof (cases "dirname_loop p (length p - 1) True")
  case None
  with assms show ?thesis
    by (cases p) (auto simp: parentDir_def posix_dirname_def isRelative_def startsWith_def)
next
  case (Some e)
  from dirname_loop_bound[OF Some] have e: "1 \<le> e" "e < length p" using assms(2)
    by (cases p; simp)+
  with assms Some show ?thesis
    by (cases p; cases e) (auto simp: parentDir_def posix_dirname_def isRelative_def startsWith_def Let_def)
qed

lemma dirname_loop_skipped: "dirname_loop p i True = Some e \<Longrightarrow> e < i"
proof (induction i)
  case 0
  then show ?case by simp
next
  case (Suc i)
  show ?case
  proof (cases "p ! Suc i = CHR ''/''")
    case True
    with Suc show ?thesis by simp
  next
    case False
    with Suc.prems have "dirname_loop p i False = Some e" by simp
    from dirname_loop_bound[OF this] show ?thesis by simp
  qed
qed

lemma parentDir_absolute:
  assumes "\<not> isRelative p" and "p \<noteq> ''/''"
  shows "\<not> isRelative (parentDir p) \<and> length (parentDir p) < length p"
proof -
  from assms(1) obtain rest where p: "p = CHR ''/'' # rest"
    by (cases p) (auto simp: isRelative_def startsWith_def)
  with assms(2) have rest: "rest \<noteq> []" by auto
  show ?thesis
  proof (cases "dirname_loop p (length p - 1) True")
    case None
    with p rest show ?thesis
      by (simp add: parentDir_def posix_dirname_def isRelative_def startsWith_def)
  next
    case (Some e)
    from dirname_loop_bound[OF Some] dirname_loop_skipped[OF Some]
    have e: "1 \<le> e" "e < length p - 1" by simp_all
    show ?thesis
    proof (cases "e = 1")
      case True
      with Some p e show ?thesis
        by (simp add: parentDir_def posix_dirname_def isRelative_def startsWith_def)
    next
      case False
      with e obtain k where k: "e = Suc (Suc k)" by (cases e; cases "e - 1") auto
      with Some p e show ?thesis
        by (simp add: parentDir_def posix_dirname_def isRelative_def startsWith_def Let_def)
    qed
  qed
qed

lemma climbs_parent:
  assumes "climbs root dir" and "dir \<noteq> []" and "dir \<noteq> root"
  shows "climbs root (parentDir dir) \<and> length (parentDir dir) < length dir"
proof (cases "isRelative dir")
  case True
  with parentDir_relative[OF True assms(2)] show ?thesis by (simp add: climbs_def)
next
  case False
  with assms(1) have r: "root = ''/''" by (simp add: climbs_def)
  with assms(3) parentDir_absolute[OF False] show ?thesis by (simp add: climbs_def)
qed

lemma configFrom_climbs:
  "climbs root dir \<Longrightarrow> length dir < n \<Longrightarrow>
   configFrom cs root fp dir = Some (resolved cs fp (candidates root dir n))"
proof (induction n arbitrary: dir)
  case 0
  then show ?case by simp
next
  case (Suc n)
  show ?case
  proof (cases "dir \<noteq> [] \<and> dir \<noteq> root")
    case False
    then show ?thesis
      by (subst configFrom.simps) (auto simp: resolved_def split: option.splits)
  next
    case True
    with Suc.prems climbs_parent[of root dir]
    have "climbs root (parentDir dir)" "length (parentDir dir) < n" by auto
    from Suc.IH[OF this] True show ?thesis
      by (subst configFrom.simps) (auto simp: resolved_def split: option.splits)
  qed
qed

lemma firstRegistered_empty: "firstRegistered [] ds = None"
  by (induction ds) auto

lemma createLoop_map_of:
  "map_of (fst (createLoop E t ps (cs, rd))) k =
     (case map_of cs k of
        Some c \<Rightarrow> Some c
      | None \<Rightarrow>
          (case find (\<lambda>p. parentDir p = k) (filter (\<lambda>p. isProjectMarker p \<and> \<not> inNodeModules p) ps) of
             Some p \<Rightarrow> Some (newProjectConfiguration (posix_join E ''/'' k) p None t)
           | None \<Rightarrow> None))"
proof (induction ps arbitrary: cs rd)
  case Nil
  then show ?case by (simp split: option.splits)
next
  case (Cons p ps)
  then show ?case
    by (auto simp: Let_def update_conv' split: option.splits)
qed

lemma createLoop_rootdirs:
  "set (snd (createLoop E t ps (cs, rd))) =
     set rd \<union> parentDir ` set (filter (\<lambda>p. isProjectMarker p \<and> \<not> inNodeModules p) ps)"
  by (induction ps arbitrary: cs rd) (auto simp: Let_def)


lemma createConfigurations_root_key:
  "map_of (configs (createConfigurations E pm)) [] =
     (case map_of (configs pm) [] of
        Some c \<Rightarrow> Some c
      | None \<Rightarrow>
          (case find (\<lambda>p. parentDir p = []) (markerFiles E pm) of
             Some p \<Rightarrow> Some (newProjectConfiguration (posix_join E ''/'' []) p None
                              (pm_traceModuleResolution pm))
           | None \<Rightarrow> Some (newProjectConfiguration ''/'' [] (Some catchAllContent)
                             (pm_traceModuleResolution pm))))"
proof -
  let ?t = "pm_traceModuleResolution pm"
  let ?r = "createLoop E ?t (relativeFilePaths E pm) (configs pm, [])"
  have m: "map_of (fst ?r) [] =
     (case map_of (configs pm) [] of
        Some c \<Rightarrow> Some c
      | None \<Rightarrow>
          (case find (\<lambda>p. parentDir p = []) (markerFiles E pm) of
             Some p \<Rightarrow> Some (newProjectConfiguration (posix_join E ''/'' []) p None ?t)
           | None \<Rightarrow> None))"
    unfolding markerFiles_def by (rule createLoop_map_of)
  have r: "[] \<in> set (snd ?r) \<longleftrightarrow> find (\<lambda>p. parentDir p = []) (markerFiles E pm) \<noteq> None"
    unfolding markerFiles_def createLoop_rootdirs by (force simp: find_None_iff image_iff)
  show ?thesis
    using m r
    by (cases ?r) (auto simp: createConfigurations_def update_conv' split: option.splits)
qed

lemma createConfigurations_rooted: "map_of (configs (createConfigurations E pm)) [] \<noteq> None"
  by (simp add: createConfigurations_root_key split: option.splits)

text \<open>
  C7, as the code has it. After \<open>createConfigurations\<close> the root key \<open>''\<close> always has
  a configuration: the one registered before, if there was one; otherwise the
  configuration of the first marker file that lies directly in the root directory, if
  there is one; otherwise the catch-all configuration with the inline default options.
  So the catch-all is created exactly when no configuration is registered for the root
  yet and no marker file lies in the root directory itself; marker files in
  subdirectories do not prevent it.
\<close>

theorem createConfigurations_catch_all:
  "map_of (configs (createConfigurations E pm)) [] =
     (case map_of (configs pm) [] of
        Some c \<Rightarrow> Some c
      | None \<Rightarrow>
          (case find (\<lambda>p. parentDir p = []) (markerFiles E pm) of
             Some p \<Rightarrow> Some (newProjectConfiguration (posix_join E ''/'' []) p None
                              (pm_traceModuleResolution pm))
           | None \<Rightarrow> Some (newProjectConfiguration ''/'' [] (Some catchAllContent)
                             (pm_traceModuleResolution pm))))"
  by (rule createConfigurations_root_key)

text \<open>
  The claim C7 as it was stated fails on the code: in a workspace whose only file is
  \<open>sub/tsconfig.json\<close>, a marker file exists, and \<open>createConfigurations\<close> registers
  the project \<open>sub\<close> and the catch-all root configuration as well.
\<close>

theorem catch_all_despite_marker:
  "markerFiles demoEnv demoSubPm = [''sub/tsconfig.json''] \<and>
   map_of (configs (createConfigurations demoEnv demoSubPm)) [] =
     Some (newProjectConfiguration ''/'' [] (Some catchAllContent) False) \<and>
   map fst (configs (createConfigurations demoEnv demoSubPm)) = [''sub'', []]"
  by code_simp

text \<open>
  C9, as the code has it. The parameter of \<open>getConfiguration\<close> is documented as a
  ``source file path relative to project root''. For every such path \<open>p\<close> the call
  returns: it probes \<open>p\<close>, then the directory of \<open>p\<close> and its ancestors in turn,
  until the empty path or the root path is reached, and gives the first registered
  configuration found; if none is found it gives the configuration registered for the
  root, and throws if there is none. The first probe is the path itself: for a path
  that is not the key of a configuration (a file is not a project directory) and is not
  the root path, the result is that of the walk from the directory of \<open>p\<close>. In
  every state of the manager (no configuration at all, or, after
  \<open>createConfigurations\<close>, one for the root) the call throws exactly when no
  configuration exists at all.
\<close>

theorem getConfiguration_walk:
  assumes "isRelative p"
    and "configs pm = [] \<or> map_of (configs pm) [] \<noteq> None"
  shows "getConfiguration pm p =
           Some (resolved (configs pm) p (candidates (rootPath pm) p (Suc (length p)))) \<and>
         (map_of (configs pm) p = None \<and> p \<noteq> rootPath pm \<longrightarrow>
            getConfiguration pm p =
              Some (resolved (configs pm) p (candidates (rootPath pm) (parentDir p) (length p)))) \<and>
         ((\<exists>e. getConfiguration pm p = Some (Inl e)) \<longleftrightarrow> configs pm = [])"
proof -
  let ?cs = "configs pm"
  from assms(1) have cl: "climbs (rootPath pm) p" by (simp add: climbs_def)
  have a: "getConfiguration pm p =
           Some (resolved ?cs p (candidates (rootPath pm) p (Suc (length p))))"
    unfolding getConfiguration_def using cl by (intro configFrom_climbs) simp_all
  have b: "resolved ?cs p (candidates (rootPath pm) p (Suc (length p))) =
           resolved ?cs p (candidates (rootPath pm) (parentDir p) (length p))"
    if "map_of ?cs p = None" "p \<noteq> rootPath pm"
    using that by (cases "p = []") (simp_all add: resolved_def)
  have c: "(\<exists>e. resolved ?cs p ds = Inl e) \<longleftrightarrow> ?cs = []" for ds
  proof (cases "?cs = []")
    case True
    then show ?thesis by (simp add: resolved_def firstRegistered_empty)
  next
    case False
    with assms(2) show ?thesis by (auto simp: resolved_def split: option.splits)
  qed
  from a b c show ?thesis by simp
qed

theorem getConfiguration_walk_witness:
  "isRelative ''sub/src/x.ts'' \<and> isRelative ''lib/y.ts'' \<and>
   map_of (configs demoWsPm) [] \<noteq> None \<and>
   map_of (configs demoWsPm) ''sub/src/x.ts'' = None \<and> ''sub/src/x.ts'' \<noteq> rootPath demoWsPm \<and>
   candidates (rootPath demoWsPm) (parentDir ''sub/src/x.ts'') (length ''sub/src/x.ts'')
     = [''sub/src'', ''sub''] \<and>
   getConfiguration demoWsPm ''sub/src/x.ts'' =
     Some (Inr (''sub'', newProjectConfiguration ''/sub'' ''sub/tsconfig.json'' None False)) \<and>
   getConfiguration demoWsPm ''lib/y.ts'' =
     Some (Inr ([], newProjectConfiguration ''/'' [] (Some catchAllContent) False))"
proof -
  have r: "isRelative ''sub/src/x.ts''" "isRelative ''lib/y.ts''"
    by (simp_all add: isRelative_def startsWith_def)
  have k: "map_of (configs demoWsPm) [] \<noteq> None"
    unfolding demoWsPm_def by (rule createConfigurations_rooted)
  have n: "map_of (configs demoWsPm) ''sub/src/x.ts'' = None"
    unfolding demoWsPm_def by code_simp
  have q: "''sub/src/x.ts'' \<noteq> rootPath demoWsPm"
    by (simp add: demoWsPm_def newProjectManager_def createConfigurations_def split_def Let_def)
  have w: "candidates (rootPath demoWsPm) (parentDir ''sub/src/x.ts'') (length ''sub/src/x.ts'')
             = [''sub/src'', ''sub'']"
    unfolding demoWsPm_def by code_simp
  have e1: "resolved (configs demoWsPm) ''sub/src/x.ts''
          (candidates (rootPath demoWsPm) (parentDir ''sub/src/x.ts'') (length ''sub/src/x.ts'')) =
        Inr (''sub'', newProjectConfiguration ''/sub'' ''sub/tsconfig.json'' None False)"
    unfolding demoWsPm_def by code_simp
  have e2: "resolved (configs demoWsPm) ''lib/y.ts''
          (candidates (rootPath demoWsPm) ''lib/y.ts'' (Suc (length ''lib/y.ts''))) =
        Inr ([], newProjectConfiguration ''/'' [] (Some catchAllContent) False)"
    unfolding demoWsPm_def by code_simp
  note t1 = getConfiguration_walk[OF r(1) disjI2[OF k]]
  note t2 = getConfiguration_walk[OF r(2) disjI2[OF k]]
  from t1 n q
  have "getConfiguration demoWsPm ''sub/src/x.ts'' =
          Some (resolved (configs demoWsPm) ''sub/src/x.ts''
                  (candidates (rootPath demoWsPm) (parentDir ''sub/src/x.ts'')
                     (length ''sub/src/x.ts'')))"
    by blast
  then have g1: "getConfiguration demoWsPm ''sub/src/x.ts'' =
     Some (Inr (''sub'', newProjectConfiguration ''/sub'' ''sub/tsconfig.json'' None False))"
    by (simp only: e1)
  from t2
  have "getConfiguration demoWsPm ''lib/y.ts'' =
          Some (resolved (configs demoWsPm) ''lib/y.ts''
                  (candidates (rootPath demoWsPm) ''lib/y.ts'' (Suc (length ''lib/y.ts''))))"
    by blast
  then have g2: "getConfiguration demoWsPm ''lib/y.ts'' =
     Some (Inr ([], newProjectConfiguration ''/'' [] (Some catchAllContent) False))"
    by (simp only: e2)
  from r k n q w g1 g2 show ?thesis by blast
qed


text \<open>
  From an absolute path the walk need not end: \<open>dirname\<close> maps \<open>/\<close> to itself, so the
  loop runs forever when the root path is not \<open>/\<close> and no configuration is registered
  under \<open>/\<close>.
\<close>

lemma parentDir_root: "parentDir ''/'' = ''/''"
  by (simp add: parentDir_def posix_dirname_def)

lemma configFrom_never:
  assumes "configFrom cs root fp dir = Some y"
  shows "\<not> (dir = ''/'' \<and> root \<noteq> ''/'' \<and> map_of cs ''/'' = None)"
proof (rule configFrom.raw_induct
    [where P = "\<lambda>cs root fp dir y. \<not> (dir = ''/'' \<and> root \<noteq> ''/'' \<and> map_of cs ''/'' = None)",
      OF _ assms])
  fix f :: "(string \<times> ProjectConfiguration) list \<Rightarrow> string \<Rightarrow> string \<Rightarrow> string
            \<Rightarrow> (error + string \<times> ProjectConfiguration) option"
  fix cs root fp dir y
  assume ih: "\<And>cs root fp dir y. f cs root fp dir = Some y \<Longrightarrow>
                \<not> (dir = ''/'' \<and> root \<noteq> ''/'' \<and> map_of cs ''/'' = None)"
    and eq: "(if dir \<noteq> [] \<and> dir \<noteq> root
              then case map_of cs dir of
                     None \<Rightarrow> f cs root fp (parentDir dir)
                   | Some config \<Rightarrow> Some (Inr (dir, config))
              else case map_of cs [] of
                     None \<Rightarrow> Some (Inl (ConfigNotFound fp))
                   | Some config \<Rightarrow> Some (Inr ([], config))) = Some y"
  show "\<not> (dir = ''/'' \<and> root \<noteq> ''/'' \<and> map_of cs ''/'' = None)"
  proof
    assume h: "dir = ''/'' \<and> root \<noteq> ''/'' \<and> map_of cs ''/'' = None"
    then have d: "dir = ''/''" and r: "''/'' \<noteq> root" and m: "map_of cs ''/'' = None"
      by auto
    from eq have "f cs root fp ''/'' = Some y"
      unfolding d using r m by (simp add: parentDir_root)
    from ih[OF this] h show False by simp
  qed
qed

lemma configFrom_loops:
  assumes "root \<noteq> ''/''" and "map_of cs ''/'' = None"
  shows "configFrom cs root fp ''/'' = None"
proof (cases "configFrom cs root fp ''/''")
  case None
  then show ?thesis .
next
  case (Some y)
  with configFrom_never[of cs root fp "''/''" y] assms show ?thesis by simp
qed

lemma getConfiguration_loops:
  assumes "rootPath pm \<noteq> ''/''" and "map_of (configs pm) ''/'' = None"
  shows "getConfiguration pm ''/'' = None"
  using configFrom_loops[OF assms] by (simp add: getConfiguration_def)

lemma configFrom_climb:
  assumes "dir \<noteq> []" and "dir \<noteq> root" and "map_of cs dir = None"
  shows "configFrom cs root fp dir = configFrom cs root fp (parentDir dir)"
  using assms by (subst configFrom.simps) simp

lemma configFrom_stop:
  assumes "map_of cs [] = Some config"
  shows "configFrom cs root fp root = Some (Inr ([], config))"
  using assms by (subst configFrom.simps) simp

text \<open>
  The claim C9 as it was stated, for every file path, fails on the code. The workspace
  is opened under the root path \<open>/ws\<close>; the project \<open>sub\<close> and the catch-all are
  registered, under keys relative to the root. For the absolute path \<open>/lib/y.ts\<close>, which
  is not below the root, the loop climbs to \<open>/\<close> and stays there: the call never
  returns. For the absolute path \<open>/ws/sub/src/x.ts\<close> the probes are absolute and match
  no key: the catch-all is returned although the file lies in the project \<open>sub\<close>.
\<close>

theorem getConfiguration_absolute_path:
  "rootPath demoWsPm = ''/ws'' \<and>
   map fst (configs demoWsPm) = [''sub'', []] \<and>
   getConfiguration demoWsPm ''/lib/y.ts'' = None \<and>
   getConfiguration demoWsPm ''/ws/sub/src/x.ts'' =
     Some (Inr ([], newProjectConfiguration ''/'' [] (Some catchAllContent) False))"
proof -
  let ?sub = "newProjectConfiguration ''/sub'' ''sub/tsconfig.json'' None False"
  let ?all = "newProjectConfiguration ''/'' [] (Some catchAllContent) False"
  have root: "rootPath demoWsPm = ''/ws''"
    by (simp add: demoWsPm_def newProjectManager_def createConfigurations_def split_def Let_def)
  have cfg: "configs demoWsPm = [(''sub'', ?sub), ([], ?all)]"
    unfolding demoWsPm_def by code_simp
  have p1: "parentDir ''/lib/y.ts'' = ''/lib''" and p2: "parentDir ''/lib'' = ''/''"
    and p3: "parentDir ''/ws/sub/src/x.ts'' = ''/ws/sub/src''"
    and p4: "parentDir ''/ws/sub/src'' = ''/ws/sub''"
    and p5: "parentDir ''/ws/sub'' = ''/ws''"
    by code_simp+
  have "configFrom (configs demoWsPm) ''/ws'' ''/lib/y.ts'' ''/lib/y.ts'' =
        configFrom (configs demoWsPm) ''/ws'' ''/lib/y.ts'' ''/lib''"
    using configFrom_climb[of "''/lib/y.ts''" "''/ws''" "configs demoWsPm" "''/lib/y.ts''"]
    by (simp add: cfg p1)
  also have "\<dots> = configFrom (configs demoWsPm) ''/ws'' ''/lib/y.ts'' ''/''"
    using configFrom_climb[of "''/lib''" "''/ws''" "configs demoWsPm" "''/lib/y.ts''"]
    by (simp add: cfg p2)
  also have "\<dots> = None"
    by (rule configFrom_loops) (simp_all add: cfg)
  finally have never: "getConfiguration demoWsPm ''/lib/y.ts'' = None"
    by (simp add: getConfiguration_def root)
  have "configFrom (configs demoWsPm) ''/ws'' ''/ws/sub/src/x.ts'' ''/ws/sub/src/x.ts'' =
        configFrom (configs demoWsPm) ''/ws'' ''/ws/sub/src/x.ts'' ''/ws/sub/src''"
    using configFrom_climb[of "''/ws/sub/src/x.ts''" "''/ws''" "configs demoWsPm" "''/ws/sub/src/x.ts''"]
    by (simp add: cfg p3)
  also have "\<dots> = configFrom (configs demoWsPm) ''/ws'' ''/ws/sub/src/x.ts'' ''/ws/sub''"
    using configFrom_climb[of "''/ws/sub/src''" "''/ws''" "configs demoWsPm" "''/ws/sub/src/x.ts''"]
    by (simp add: cfg p4)
  also have "\<dots> = configFrom (configs demoWsPm) ''/ws'' ''/ws/sub/src/x.ts'' ''/ws''"
    using configFrom_climb[of "''/ws/sub''" "''/ws''" "configs demoWsPm" "''/ws/sub/src/x.ts''"]
    by (simp add: cfg p5)
  also have "\<dots> = Some (Inr ([], ?all))"
    by (rule configFrom_stop) (simp add: cfg)
  finally have under: "getConfiguration demoWsPm ''/ws/sub/src/x.ts'' = Some (Inr ([], ?all))"
    by (simp add: getConfiguration_def root)
  from root cfg never under show ?thesis by simp
qed


section \<open>Properties of the edit notifications\<close>




lemma getConfiguration_frame [simp]:
  "getConfiguration (pm\<lparr>updater := u\<rparr>) p = getConfiguration pm p"
  "getConfiguration (bumpVersion q pm) p = getConfiguration pm p"
  "getConfiguration (pm\<lparr>pm_versions := vs\<rparr>) p = getConfiguration pm p"
  by (simp_all add: getConfiguration_def bumpVersion_def)







section \<open>Properties of FileSystemUpdater\<close>

lemma isRejected_simps [simp]:
  "\<not> isRejected Queued" "\<not> isRejected Running" "\<not> isRejected Fulfilled" "isRejected (Rejected e)"
  by (simp_all add: isRejected_def)


































































lemma fetch_rejected_running:
  assumes "n < length (promises u)" and "promises u ! n = (ContentFetch uri, Running)"
  shows "fetch_rejected n err u = fetch_failed n uri err u"
  using assms by (simp add: fetch_rejected_def)

text \<open>
  C6. When the remote file system answers a running fetch of a path with an error, the
  entry of the path is deleted from the table and the promise is rejected with that
  error. The next \<open>ensure\<close> of the path finds no entry and calls \<open>fetch\<close>: it returns
  a new promise, queued and stored in the table.
\<close>

theorem failed_fetch_is_retried:
  assumes "n < length (promises u)" and "promises u ! n = (ContentFetch uri, Running)"
  shows "fetches (fetch_rejected n err u) uri = None \<and>
         promises (fetch_rejected n err u) ! n = (ContentFetch uri, Rejected err) \<and>
         ensure uri (fetch_rejected n err u) = fetch uri (fetch_rejected n err u) \<and>
         fst (ensure uri (fetch_rejected n err u)) = length (promises u) \<and>
         fst (ensure uri (fetch_rejected n err u)) \<noteq> n \<and>
         promises (snd (ensure uri (fetch_rejected n err u))) ! length (promises u)
           = (ContentFetch uri, Queued) \<and>
         fetches (snd (ensure uri (fetch_rejected n err u))) uri = Some (length (promises u))"
  using assms
  by (simp add: fetch_rejected_running fetch_failed_def ensure_def fetch_def Let_def nth_append)

theorem failed_fetch_is_retried_witness:
  "promises (run [Ensure ''a.ts'', Started 0] demoUpdater) ! 0 = (ContentFetch ''a.ts'', Running) \<and>
   fetches (run [Ensure ''a.ts'', Started 0, Failed 0 (RemoteError ''offline'')] demoUpdater) ''a.ts'' = None \<and>
   fst (ensure ''a.ts'' (run [Ensure ''a.ts'', Started 0, Failed 0 (RemoteError ''offline'')] demoUpdater)) = 1 \<and>
   contentRequests (run [Ensure ''a.ts'', Started 0, Failed 0 (RemoteError ''offline''), Ensure ''a.ts'', Started 1] demoUpdater)
     = [''a.ts'', ''a.ts'']"
proof -
  let ?u = "run [Ensure ''a.ts'', Started 0] demoUpdater"
  have a: "0 < length (promises ?u)" and b: "promises ?u ! 0 = (ContentFetch ''a.ts'', Running)"
    by (simp_all add: run_def demoUpdater_def newFileSystemUpdater_def ensure_def fetch_def
        fetch_started_def running_def)
  have c: "run [Ensure ''a.ts'', Started 0, Failed 0 (RemoteError ''offline'')] demoUpdater =
           fetch_rejected 0 (RemoteError ''offline'') ?u"
    by (simp add: run_def)
  have d: "length (promises ?u) = 1"
    by (simp add: run_def demoUpdater_def newFileSystemUpdater_def ensure_def fetch_def
        fetch_started_def running_def)
  have e: "contentRequests (run [Ensure ''a.ts'', Started 0, Failed 0 (RemoteError ''offline''), Ensure ''a.ts'', Started 1] demoUpdater)
     = [''a.ts'', ''a.ts'']"
    by (simp add: run_def demoUpdater_def newFileSystemUpdater_def ensure_def fetch_def
        fetch_started_def running_def fetch_rejected_def fetch_failed_def)
  note t = failed_fetch_is_retried[OF a b, of "RemoteError ''offline''"]
  from t have x1: "fetches (fetch_rejected 0 (RemoteError ''offline'') ?u) ''a.ts'' = None"
    by blast
  from t have x2: "fst (ensure ''a.ts'' (fetch_rejected 0 (RemoteError ''offline'') ?u)) =
                   length (promises ?u)"
    by blast
  from x1 x2 b e show ?thesis unfolding c d by simp
qed




lemma ensureStructure_cached:
  "structureFetch u = Some n \<Longrightarrow> ensureStructure u = (n, u)"
  by (simp add: ensureStructure_def)

text \<open>
  C4 on the older copy of the updater. A structure fetch has completed successfully
  (one request for the file listing, the promise stored and fulfilled). A call of the
  \<open>async\<close> \<open>ensureStructure\<close> awaits the stored promise and then calls
  \<open>fetchStructure\<close>: the file listing is requested a second time and the snapshot is
  replaced. The newer copy returns the stored promise and requests nothing.
\<close>

theorem async_ensureStructure_refetches:
  "filesRequests (run [EnsureStructure, StructureResolved 0 [''a.ts'']] demoUpdater) = 1 \<and>
   structureFetch (run [EnsureStructure, StructureResolved 0 [''a.ts'']] demoUpdater) = Some 0 \<and>
   promises (run [EnsureStructure, StructureResolved 0 [''a.ts'']] demoUpdater) ! 0
     = (StructureFetch, Fulfilled) \<and>
   ensureStructure_async_awaits (run [EnsureStructure, StructureResolved 0 [''a.ts'']] demoUpdater)
     = Some 0 \<and>
   (case ensureStructure_async_resume (Some 0)
           (run [EnsureStructure, StructureResolved 0 [''a.ts'']] demoUpdater) of
      None \<Rightarrow> False
    | Some (r, u2) \<Rightarrow> r = Inr 1 \<and> filesRequests u2 = 2 \<and> structureFetch u2 = Some 1) \<and>
   fst (ensureStructure (run [EnsureStructure, StructureResolved 0 [''a.ts'']] demoUpdater)) = 0 \<and>
   filesRequests (snd (ensureStructure
       (run [EnsureStructure, StructureResolved 0 [''a.ts'']] demoUpdater))) = 1"
  by (simp add: run_def demoUpdater_def newFileSystemUpdater_def ensureStructure_def
      fetchStructure_def structure_resolved_def ensureStructure_async_awaits_def
      ensureStructure_async_resume_def add_def Let_def)


section \<open>Properties of the dependency crawl\<close>

lemma enter_all_visited:
  "visited st = visited (st' :: crawl_state) \<Longrightarrow>
   visited (foldl (\<lambda>s importPath. enter importPath s) st ps) =
   visited (foldl (\<lambda>s importPath. enter importPath s) st' ps)"
  by (induction ps arbitrary: st st') (simp_all add: enter_def)

lemma resumeAll_visited:
  assumes "\<And>uri st st'. visited st = visited (st' :: crawl_state) \<Longrightarrow>
             visited (snd (resume ens imports d uri st)) =
             visited (snd (resume ens imports d uri st'))"
    and "visited st = visited st'"
  shows "visited (resumeAll ens imports d ps st) = visited (resumeAll ens imports d ps st')"
  using assms(2)
proof (induction ps arbitrary: st st')
  case Nil
  then show ?case by simp
next
  case (Cons p ps)
  have "visited (snd (resume ens imports d p st)) = visited (snd (resume ens imports d p st'))"
    using Cons.prems by (rule assms(1))
  then have "visited (resumeAll ens imports d ps (snd (resume ens imports d p st))) =
             visited (resumeAll ens imports d ps (snd (resume ens imports d p st')))"
    by (rule Cons.IH)
  then show ?case by simp
qed

lemma resume_visited:
  "visited st = visited st' \<Longrightarrow>
   visited (snd (resume ens imports d uri st)) = visited (snd (resume ens imports d uri st'))"
proof (induction d arbitrary: uri st st')
  case 0
  then show ?case by simp
next
  case (Suc d)
  have all: "visited (resumeAll ens imports d ps
                   (foldl (\<lambda>s importPath. enter importPath s) st ps)) =
        visited (resumeAll ens imports d ps
                   (foldl (\<lambda>s importPath. enter importPath s) st' ps))" for ps
  proof (rule resumeAll_visited)
    fix u and s s' :: crawl_state
    assume "visited s = visited s'"
    then show "visited (snd (resume ens imports d u s)) = visited (snd (resume ens imports d u s'))"
      by (rule Suc.IH)
  next
    from Suc.prems
    show "visited (foldl (\<lambda>s importPath. enter importPath s) st ps) =
          visited (foldl (\<lambda>s importPath. enter importPath s) st' ps)"
      by (rule enter_all_visited)
  qed
  show ?case
  proof (cases "ens uri")
    case (Inl e)
    with Suc.prems show ?thesis by simp
  next
    case (Inr u)
    show ?thesis
    proof (cases "imports uri")
      case (Inl e)
      with Inr Suc.prems show ?thesis by simp
    next
      case r: (Inr ps)
      with Inr all[of ps] show ?thesis by simp
    qed
  qed
qed

lemma crawl_visited:
  "visited st = visited st' \<Longrightarrow>
   visited (snd (ensureTransitiveFileDependencies ens imports d uri st)) =
   visited (snd (ensureTransitiveFileDependencies ens imports d uri st'))"
  unfolding ensureTransitiveFileDependencies_def
  by (rule resume_visited) (simp add: enter_def)

lemma crawl_ignores_seen:
  "visited (snd (ensureTransitiveFileDependencies ens imports d uri (st\<lparr>seen := S\<rparr>))) =
   visited (snd (ensureTransitiveFileDependencies ens imports d uri st))"
  by (rule crawl_visited) simp

text \<open>
  C2 on the code. Two files import each other. With depth 2 the crawl from \<open>a.ts\<close>
  enters \<open>a.ts\<close>, \<open>b.ts\<close> and \<open>a.ts\<close> again; with the depth 30 of
  \<open>ensureFilesForHoverAndDefinition\<close> it enters \<open>a.ts\<close> 16 times and \<open>b.ts\<close> 15
  times. The set \<open>seen\<close> is written but never read (the lemma above: the calls made
  do not depend on it), so only the depth bound ends the crawl.
\<close>

theorem crawl_revisits_cycle:
  "visited (snd (ensureTransitiveFileDependencies (\<lambda>uri. Inr ()) cyclicImports 2 ''a.ts'' freshCrawl))
     = [''a.ts'', ''b.ts'', ''a.ts''] \<and>
   count_list (visited (snd (ensureTransitiveFileDependencies (\<lambda>uri. Inr ()) cyclicImports 30
                               ''a.ts'' freshCrawl))) ''a.ts'' = 16 \<and>
   count_list (visited (snd (ensureTransitiveFileDependencies (\<lambda>uri. Inr ()) cyclicImports 30
                               ''a.ts'' freshCrawl))) ''b.ts'' = 15"
  by code_simp


end
